theory Spec2Isabelle
  imports Complex_Main
begin

section \<open>Python values, library calls and traces\<close>

text \<open>
  The repository is orchestration code: a command-line driver
  (\<^verbatim>\<open>alignment_script_final.py\<close>) and a set of pipeline components
  (\<^verbatim>\<open>xai_volalign/components.py\<close>), each of which builds arguments and calls
  into external libraries. The embedding keeps the argument values as Python
  values, takes the external libraries as a parameter, and records every
  library call and every \<^verbatim>\<open>print\<close> in a trace.

  A float is represented by the value of the decimal literal that denotes it;
  the code never computes with floats, it only passes them on.
\<close>

datatype pyval =
    PNone
  | PBool bool
  | PInt int
  | PFloat real
  | PStr string
  | PList "pyval list"
  | PTuple "pyval list"
  | PDict "(string \<times> pyval) list"
  | PArray pyval
  | PObj nat

text \<open>
  A raised exception. \<open>Exc\<close> is an instance of Python's \<^verbatim>\<open>Exception\<close>;
  \<open>BaseExc\<close> is an instance of \<^verbatim>\<open>BaseException\<close> that is not an
  \<^verbatim>\<open>Exception\<close> (\<^verbatim>\<open>KeyboardInterrupt\<close>, \<^verbatim>\<open>SystemExit\<close>), which
  \<^verbatim>\<open>except Exception\<close> does not catch.
\<close>

datatype exc = Exc string | BaseExc string

fun is_Exception :: "exc \<Rightarrow> bool" where
  "is_Exception (Exc _) = True"
| "is_Exception (BaseExc _) = False"

text \<open>A call \<^verbatim>\<open>f(a1, ..., k1=v1, ...)\<close>: function name, positional and keyword arguments.\<close>

record call =
  fname :: string
  pos :: "pyval list"
  kw :: "(string \<times> pyval) list"

text \<open>The pieces of an f-string: literal text, a formatted value, a formatted exception.\<close>

datatype fpart = Lit string | Fmt pyval | FmtExc exc

datatype event = Call call | Print "fpart list"

text \<open>
  The external libraries: what a call returns or raises, which may depend on
  everything that happened before it.
\<close>

type_synonym library = "event list \<Rightarrow> call \<Rightarrow> exc + pyval"

fun calls :: "event list \<Rightarrow> call list" where
  "calls [] = []"
| "calls (Call c # es) = c # calls es"
| "calls (Print _ # es) = calls es"

fun prints :: "event list \<Rightarrow> fpart list list" where
  "prints [] = []"
| "prints (Call _ # es) = prints es"
| "prints (Print m # es) = m # prints es"

definition calls_to :: "string \<Rightarrow> event list \<Rightarrow> call list" where
  "calls_to f tr = filter (\<lambda>c. fname c = f) (calls tr)"

definition kwarg :: "call \<Rightarrow> string \<Rightarrow> pyval option" where
  "kwarg c k = map_of (kw c) k"

text \<open>The calls that are given a \<^verbatim>\<open>write_path\<close>: which function, and which path.\<close>

fun write_of :: "call \<Rightarrow> (string \<times> pyval) list" where
  "write_of c = (case kwarg c ''write_path'' of None \<Rightarrow> [] | Some p \<Rightarrow> [(fname c, p)])"

definition writes :: "event list \<Rightarrow> (string \<times> pyval) list" where
  "writes tr = concat (map write_of (calls tr))"

text \<open>
  Replaying a trace against the library: each call of the trace with what the
  library answered at that point, and the values a given function returned.
\<close>

fun results :: "library \<Rightarrow> event list \<Rightarrow> event list \<Rightarrow> (call \<times> (exc + pyval)) list" where
  "results lib tr [] = []"
| "results lib tr (Call c # es) = (c, lib tr c) # results lib (tr @ [Call c]) es"
| "results lib tr (Print m # es) = results lib (tr @ [Print m]) es"

fun returned_value :: "string \<Rightarrow> call \<times> (exc + pyval) \<Rightarrow> pyval list" where
  "returned_value f (c, Inr v) = (if fname c = f then [v] else [])"
| "returned_value f (c, Inl e) = []"

definition returned :: "library \<Rightarrow> event list \<Rightarrow> string \<Rightarrow> pyval list" where
  "returned lib tr f = concat (map (returned_value f) (results lib [] tr))"

fun raised_error :: "call \<times> (exc + pyval) \<Rightarrow> exc list" where
  "raised_error (c, Inl e) = [e]"
| "raised_error (c, Inr v) = []"

definition raised :: "library \<Rightarrow> event list \<Rightarrow> exc list" where
  "raised lib tr = concat (map raised_error (results lib [] tr))"

text \<open>
  Each message of a trace, with the call that was made last before it was
  printed: the name of the function called and what the library answered.
\<close>

fun prints_after ::
  "library \<Rightarrow> event list \<Rightarrow> (string \<times> (exc + pyval)) option \<Rightarrow> event list
     \<Rightarrow> (fpart list \<times> (string \<times> (exc + pyval)) option) list" where
  "prints_after lib tr last_call [] = []"
| "prints_after lib tr last_call (Call c # es) =
     prints_after lib (tr @ [Call c]) (Some (fname c, lib tr c)) es"
| "prints_after lib tr last_call (Print m # es) =
     (m, last_call) # prints_after lib (tr @ [Print m]) last_call es"

text \<open>Reading a dictionary, and a matrix's shape.\<close>

fun dict_get :: "pyval \<Rightarrow> string \<Rightarrow> pyval option" where
  "dict_get (PDict kvs) k = map_of kvs k"
| "dict_get _ k = None"

fun row_length :: "pyval \<Rightarrow> nat option" where
  "row_length (PList xs) = Some (length xs)"
| "row_length _ = None"

fun is_square :: "pyval \<Rightarrow> bool" where
  "is_square (PArray (PList rows)) = list_all (\<lambda>r. row_length r = Some (length rows)) rows"
| "is_square _ = False"

section \<open>The driver script\<close>

text \<open>
  An invocation of the driver: for each of the seven flags the parser declares,
  the value given on the command line, or \<open>None\<close> when the flag is omitted. The
  types follow the declarations: \<^verbatim>\<open>type=str\<close>, and \<^verbatim>\<open>nargs=3\<close> with
  \<^verbatim>\<open>type=float\<close> or \<^verbatim>\<open>type=int\<close>.
\<close>

record invocation =
  cli_fix_image_path :: "string option"
  cli_move_image_path :: "string option"
  cli_spacing :: "(real \<times> real \<times> real) option"
  cli_blocksize :: "(int \<times> int \<times> int) option"
  cli_init_transform_path :: "string option"
  cli_output_dir :: "string option"
  cli_output_name :: "string option"

text \<open>The namespace \<^verbatim>\<open>args\<close> that \<^verbatim>\<open>parser.parse_args()\<close> returns.\<close>

record namespace =
  args_fix_image_path :: "string option"
  args_move_image_path :: "string option"
  args_spacing :: "real list"
  args_blocksize :: "int list"
  args_init_transform_path :: "string option"
  args_output_dir :: "string option"
  args_output_name :: "string option"

text \<open>
  Lines 15 to 25: a flag that is omitted takes its declared default, which is
  \<^verbatim>\<open>None\<close> where no default is declared.
\<close>

definition parse_args :: "invocation \<Rightarrow> namespace" where
  "parse_args argv =
    \<lparr> args_fix_image_path = cli_fix_image_path argv,
      args_move_image_path = cli_move_image_path argv,
      args_spacing = (case cli_spacing argv of
                   None \<Rightarrow> [0.1507417, 0.1507417, 0.1507417]
                 | Some (z, y, x) \<Rightarrow> [z, y, x]),
      args_blocksize = (case cli_blocksize argv of
                     None \<Rightarrow> [512, 512, 512]
                   | Some (z, y, x) \<Rightarrow> [z, y, x]),
      args_init_transform_path = cli_init_transform_path argv,
      args_output_dir = cli_output_dir argv,
      args_output_name = cli_output_name argv \<rparr>"

text \<open>A \<^verbatim>\<open>str\<close>-typed argument as a Python value, and as it is formatted in an f-string.\<close>

fun py_str :: "string option \<Rightarrow> pyval" where
  "py_str None = PNone"
| "py_str (Some s) = PStr s"

fun fstr :: "string option \<Rightarrow> string" where
  "fstr None = ''None''"
| "fstr (Some s) = s"

text \<open>Lines 40 to 53 and 87 to 100: the two values assigned to \<^verbatim>\<open>cluster_config\<close>.\<close>

definition pre_spawn_environ :: pyval where
  "pre_spawn_environ = PDict
     [(''MALLOC_TRIM_THRESHOLD_'', PInt 65536),
      (''MKL_NUM_THREADS'', PInt 6),
      (''OMP_NUM_THREADS'', PInt 6),
      (''OPENBLAS_NUM_THREADS'', PInt 6)]"

definition cluster_config_align :: pyval where
  "cluster_config_align = PDict
     [(''n_workers'', PInt 16),
      (''threads_per_worker'', PInt 1),
      (''memory_limit'', PStr ''70GB''),
      (''config'', PDict
         [(''distributed.nanny.pre-spawn-environ'', pre_spawn_environ),
          (''distributed.scheduler.worker-ttl'', PNone)])]"

definition cluster_config_apply :: pyval where
  "cluster_config_apply = PDict
     [(''n_workers'', PInt 8),
      (''threads_per_worker'', PInt 1),
      (''memory_limit'', PStr ''140GB''),
      (''config'', PDict
         [(''distributed.nanny.pre-spawn-environ'', pre_spawn_environ),
          (''distributed.scheduler.worker-ttl'', PNone)])]"

text \<open>Lines 59 to 68.\<close>

definition deform_kwargs :: pyval where
  "deform_kwargs = PDict
     [(''alignment_spacing'', PFloat 0.4),
      (''smooth_sigmas'', PTuple [PInt 0]),
      (''control_point_spacing'', PFloat 100.0),
      (''control_point_levels'', PTuple [PInt 1])]"

definition steps :: pyval where
  "steps = PList [PTuple [PStr ''deform'', deform_kwargs]]"

text \<open>The four external calls of \<^verbatim>\<open>main\<close>, with the arguments the source passes.\<close>

definition zarr_open :: "pyval \<Rightarrow> call" where
  "zarr_open path = \<lparr> fname = ''zarr.open'', pos = [path], kw = [(''mode'', PStr ''r'')] \<rparr>"

definition np_loadtxt :: "pyval \<Rightarrow> call" where
  "np_loadtxt path = \<lparr> fname = ''np.loadtxt'', pos = [path], kw = [] \<rparr>"

definition distributed_piecewise_alignment_pipeline ::
  "pyval \<Rightarrow> pyval \<Rightarrow> pyval \<Rightarrow> pyval \<Rightarrow> string option \<Rightarrow> string option \<Rightarrow> pyval \<Rightarrow> call" where
  "distributed_piecewise_alignment_pipeline fix_image move_image spacing blocksize
       output_dir output_name affine =
    \<lparr> fname = ''distributed_piecewise_alignment_pipeline'',
      pos = [fix_image, move_image, spacing, spacing, steps],
      kw = [(''blocksize'', blocksize),
            (''overlap'', PFloat 0.3),
            (''rebalance_for_missing_neighbors'', PBool True),
            (''write_path'',
               PStr (fstr output_dir @ ''/'' @ fstr output_name @ ''_deformation_field.zarr'')),
            (''static_transform_list'', PList [affine]),
            (''cluster_kwargs'', cluster_config_align)] \<rparr>"

definition distributed_apply_transform ::
  "pyval \<Rightarrow> pyval \<Rightarrow> pyval \<Rightarrow> pyval \<Rightarrow> string option \<Rightarrow> string option \<Rightarrow> pyval \<Rightarrow> pyval \<Rightarrow> call" where
  "distributed_apply_transform fix_image move_image spacing blocksize
       output_dir output_name affine deform =
    \<lparr> fname = ''distributed_apply_transform'',
      pos = [fix_image, move_image, spacing, spacing],
      kw = [(''transform_list'', PList [affine, deform]),
            (''blocksize'', blocksize),
            (''write_path'',
               PStr (fstr output_dir @ ''/'' @ fstr output_name @ ''_aligned_round.zarr'')),
            (''cluster_kwargs'', cluster_config_apply)] \<rparr>"

text \<open>
  \<^verbatim>\<open>main\<close>, lines 11 to 109. There is no \<^verbatim>\<open>try\<close> in it: an exception
  raised by a call ends \<^verbatim>\<open>main\<close> at that call. The result is the trace and
  either the exception that left \<^verbatim>\<open>main\<close> or its return value \<^verbatim>\<open>None\<close>.
  \<^verbatim>\<open>np.array(args.spacing)\<close>, line 31, is applied to a list of three floats,
  on which it does not raise; it is the constructor \<open>PArray\<close>.
\<close>

definition main :: "library \<Rightarrow> invocation \<Rightarrow> event list \<times> (exc + pyval)" where
  "main lib argv =
    (let args = parse_args argv;
         spacing = PArray (PList (map PFloat (args_spacing args)));
         blocksize = PList (map PInt (args_blocksize args));
         init_matrix_path = py_str (args_init_transform_path args);
         output_dir = args_output_dir args;
         output_name = args_output_name args;
         c1 = zarr_open (py_str (args_fix_image_path args));
         tr1 = [Call c1]
     in case lib [] c1 of
          Inl e \<Rightarrow> (tr1, Inl e)
        | Inr fix_image \<Rightarrow>
     (let c2 = zarr_open (py_str (args_move_image_path args));
          tr2 = tr1 @ [Call c2]
      in case lib tr1 c2 of
           Inl e \<Rightarrow> (tr2, Inl e)
         | Inr move_image \<Rightarrow>
     (let c3 = np_loadtxt init_matrix_path;
          tr3 = tr2 @ [Call c3]
      in case lib tr2 c3 of
           Inl e \<Rightarrow> (tr3, Inl e)
         | Inr affine \<Rightarrow>
     (let c4 = distributed_piecewise_alignment_pipeline fix_image move_image spacing blocksize
                 output_dir output_name affine;
          tr4 = tr3 @ [Call c4]
      in case lib tr3 c4 of
           Inl e \<Rightarrow> (tr4, Inl e)
         | Inr deform \<Rightarrow>
     (let tr5 = tr4 @ [Print [Lit ''deform done'']];
          c6 = distributed_apply_transform fix_image move_image spacing blocksize
                 output_dir output_name affine deform;
          tr6 = tr5 @ [Call c6]
      in case lib tr5 c6 of
           Inl e \<Rightarrow> (tr6, Inl e)
         | Inr aligned \<Rightarrow> (tr6, Inr PNone))))))"

text \<open>Concrete inputs used to run the model.\<close>

definition argv0 :: invocation where
  "argv0 = \<lparr> cli_fix_image_path = Some ''fix.zarr'',
            cli_move_image_path = Some ''move.zarr'',
            cli_spacing = None,
            cli_blocksize = None,
            cli_init_transform_path = Some ''m.txt'',
            cli_output_dir = Some ''out'',
            cli_output_name = Some ''r1'' \<rparr>"



text \<open>A library in which every call returns a fresh object.\<close>

definition lib_ok :: library where
  "lib_ok tr c = Inr (PObj (length tr))"

text \<open>A library in which the piecewise alignment raises.\<close>

definition lib_piecewise_fails :: library where
  "lib_piecewise_fails tr c =
     (if fname c = ''distributed_piecewise_alignment_pipeline''
      then Inl (Exc ''worker died'') else Inr (PObj (length tr)))"

text \<open>A library in which loading the matrix raises, as on a file that is not numeric.\<close>

definition lib_loadtxt_fails :: library where
  "lib_loadtxt_fails tr c =
     (if fname c = ''np.loadtxt''
      then Inl (Exc ''could not convert string to float'') else Inr (PObj (length tr)))"

text \<open>
  A library in which the matrix file holds two rows of three numbers, which
  \<^verbatim>\<open>np.loadtxt\<close> returns as an array of shape (2, 3).
\<close>

definition matrix_2x3 :: pyval where
  "matrix_2x3 = PArray (PList [PList [PFloat 1, PFloat 0, PFloat 0],
                               PList [PFloat 0, PFloat 1, PFloat 0]])"

definition lib_nonsquare :: library where
  "lib_nonsquare tr c =
     (if fname c = ''np.loadtxt'' then Inr matrix_2x3 else Inr (PObj (length tr)))"

text \<open>
  The thread settings of a cluster configuration: \<^verbatim>\<open>threads_per_worker\<close>, and
  the three math-library variables of the workers' environment.
\<close>

definition env_override :: "pyval \<Rightarrow> string \<Rightarrow> pyval option" where
  "env_override cfg name =
     (case dict_get cfg ''config'' of
        None \<Rightarrow> None
      | Some c \<Rightarrow> (case dict_get c ''distributed.nanny.pre-spawn-environ'' of
                    None \<Rightarrow> None
                  | Some env \<Rightarrow> dict_get env name))"

definition math_threads :: "pyval \<Rightarrow> pyval option list" where
  "math_threads cfg =
     map (env_override cfg) [''MKL_NUM_THREADS'', ''OMP_NUM_THREADS'', ''OPENBLAS_NUM_THREADS'']"

definition cluster_configs :: "event list \<Rightarrow> pyval list" where
  "cluster_configs tr = concat (map (\<lambda>c. case kwarg c ''cluster_kwargs'' of
                                           None \<Rightarrow> [] | Some cfg \<Rightarrow> [cfg]) (calls tr))"

text \<open>The calls of a trace that dispatch distributed work.\<close>

definition distributed_calls :: "event list \<Rightarrow> call list" where
  "distributed_calls tr =
     calls_to ''distributed_piecewise_alignment_pipeline'' tr
       @ calls_to ''distributed_apply_transform'' tr"

section \<open>The pipeline components\<close>

text \<open>
  A component of \<^verbatim>\<open>components.py\<close> is an object with ports; \<^verbatim>\<open>self.p.value\<close>
  is the value of port \<^verbatim>\<open>p\<close>, which is \<^verbatim>\<open>None\<close> until it is set. The state
  of a component is the map from port names to values.
\<close>

type_synonym ports = "string \<Rightarrow> pyval"

datatype component =
    CreateBDVXML
  | StitchTiles
  | BlendTiles
  | VoxelSpacingResample
  | ApplyManualAlignment
  | LinearAlignmentTuning
  | ConvertZarrToTiff
  | ConvertTiffToZarr
  | DownsampleTiff
  | StackTiffImages
  | ReorientVolume

text \<open>
  The output ports the classes declare (\<^verbatim>\<open>OutArg\<close>): \<^verbatim>\<open>affine_matrix\<close> in
  \<^verbatim>\<open>LinearAlignmentTuning\<close>, \<^verbatim>\<open>reoriented_volume\<close> in \<^verbatim>\<open>ReorientVolume\<close>, none
  in the other nine.
\<close>

fun output_port :: "component \<Rightarrow> string option" where
  "output_port LinearAlignmentTuning = Some ''affine_matrix''"
| "output_port ReorientVolume = Some ''reoriented_volume''"
| "output_port _ = None"

text \<open>
  \<^verbatim>\<open>np.array(x)\<close>, a call into numpy that raises on some values, a ragged
  list for one. \<^verbatim>\<open>CreateBDVXML.execute\<close> makes it on the value of the port
  \<^verbatim>\<open>offset_array\<close>, line 45, before its \<^verbatim>\<open>try\<close>.
\<close>

definition np_array :: "pyval \<Rightarrow> call" where
  "np_array x = \<lparr> fname = ''np.array'', pos = [x], kw = [] \<rparr>"

text \<open>
  The part of each \<^verbatim>\<open>execute\<close> before its \<^verbatim>\<open>try\<close>: the values read from
  the input ports, with the defaults of the optional ports. The result is the
  trace so far and either the library call that the \<^verbatim>\<open>try\<close> is about to
  make, built from these values, or the exception raised before the \<^verbatim>\<open>try\<close>
  is reached. Only \<^verbatim>\<open>CreateBDVXML\<close> can raise there, in \<^verbatim>\<open>np.array\<close>.
\<close>

fun before_try ::
  "component \<Rightarrow> library \<Rightarrow> ports \<Rightarrow> event list \<Rightarrow> event list \<times> (exc + call)" where
  "before_try CreateBDVXML lib self tr =
    (let tiles_folder = self ''tiles_folder'';
         fov_list = self ''fov_list'';
         c0 = np_array (self ''offset_array'')
     in case lib tr c0 of
          Inl e \<Rightarrow> (tr @ [Call c0], Inl e)
        | Inr offset_array \<Rightarrow>
     (let voxel_size = self ''voxel_size'';
          nchannels = (if self ''nchannels'' \<noteq> PNone then self ''nchannels'' else PInt 1);
          increment_scale = (if self ''overlap_percentage'' \<noteq> PNone
                             then self ''overlap_percentage'' else PFloat 0.05)
      in (tr @ [Call c0],
          Inr \<lparr> fname = ''create_bdv_xml'', pos = [],
                kw = [(''tiles_folder'', tiles_folder),
                      (''fov_list'', fov_list),
                      (''offset_array'', offset_array),
                      (''voxel_size'', voxel_size),
                      (''nchannels'', nchannels),
                      (''increment_scale'', increment_scale)] \<rparr>)))"
| "before_try StitchTiles lib self tr =
    (let xml_file_path = self ''xml_file_path'';
         fiji_path = self ''fiji_path''
     in (tr, Inr \<lparr> fname = ''stitch_tiles'', pos = [xml_file_path, fiji_path], kw = [] \<rparr>))"
| "before_try BlendTiles lib self tr =
    (let xml_file = self ''xml_file'';
         output_folder = self ''output_folder'';
         voxel_size = self ''voxel_size'';
         channels_names = self ''channels_names''
     in (tr, Inr \<lparr> fname = ''blend_tiles'', pos = [],
          kw = [(''xml_file'', xml_file),
                (''output_folder'', output_folder),
                (''voxel_size'', voxel_size),
                (''channels'', channels_names)] \<rparr>))"
| "before_try VoxelSpacingResample lib self tr =
    (let input_file = self ''input_file'';
         output_path = self ''output_path'';
         original_spacing = self ''original_spacing'';
         target_spacing = self ''target_spacing''
     in (tr, Inr \<lparr> fname = ''voxel_spacing_resample'', pos = [],
          kw = [(''input_file'', input_file),
                (''output_path'', output_path),
                (''original_spacing'', original_spacing),
                (''target_spacing'', target_spacing)] \<rparr>))"
| "before_try ApplyManualAlignment lib self tr =
    (let matrix_file_path = self ''matrix_file_path'';
         fixed_volume_path = self ''fixed_volume_path'';
         moving_volume_path = self ''moving_volume_path'';
         resample_output_fixed_path = self ''resample_output_fixed_path'';
         resample_output_moving_path = self ''resample_output_moving_path''
     in (tr, Inr \<lparr> fname = ''apply_manual_alignment'', pos = [],
          kw = [(''matrix_file_path'', matrix_file_path),
                (''fixed_slice_path'', fixed_volume_path),
                (''moving_slice_path'', moving_volume_path),
                (''resample_output_fixed_path'', resample_output_fixed_path),
                (''resample_output_moving_path'', resample_output_moving_path)] \<rparr>))"
| "before_try LinearAlignmentTuning lib self tr =
    (let fixed_path = self ''fixed_path'';
         moving_path = self ''moving_path'';
         fixed_spacing = self ''fixed_spacing'';
         moving_spacing = self ''moving_spacing'';
         output_matrix_file = self ''output_matrix_file'';
         steps = (if self ''steps'' \<noteq> PNone then self ''steps'' else PNone)
     in (tr, Inr \<lparr> fname = ''linear_alignment_tuning'', pos = [],
          kw = [(''fixed_path'', fixed_path),
                (''moving_path'', moving_path),
                (''fixed_spacing'', fixed_spacing),
                (''moving_spacing'', moving_spacing),
                (''output_matrix_file'', output_matrix_file),
                (''steps'', steps)] \<rparr>))"
| "before_try ConvertZarrToTiff lib self tr =
    (let zarr_file = self ''zarr_file'';
         tiff_file = self ''tiff_file''
     in (tr, Inr \<lparr> fname = ''convert_zarr_to_tiff'', pos = [zarr_file, tiff_file], kw = [] \<rparr>))"
| "before_try ConvertTiffToZarr lib self tr =
    (let tiff_file = self ''tiff_file'';
         zarr_file = self ''zarr_file''
     in (tr, Inr \<lparr> fname = ''convert_tiff_to_zarr'', pos = [tiff_file, zarr_file], kw = [] \<rparr>))"
| "before_try DownsampleTiff lib self tr =
    (let input_path = self ''input_path'';
         output_path = self ''output_path'';
         factors = self ''factors'';
         order = (if self ''order'' \<noteq> PNone then self ''order'' else PInt 1)
     in (tr, Inr \<lparr> fname = ''downsample_tiff'',
          pos = [input_path, output_path, factors, order], kw = [] \<rparr>))"
| "before_try StackTiffImages lib self tr =
    (let file1 = self ''file1'';
         file2 = self ''file2'';
         output_file = self ''output_file''
     in (tr, Inr \<lparr> fname = ''stack_tiff_images'', pos = [file1, file2, output_file], kw = [] \<rparr>))"
| "before_try ReorientVolume lib self tr =
    (let input_path = self ''input_path'';
         output_path = self ''output_path'';
         rotation = self ''rotation'';
         flip = self ''flip''
     in (tr, Inr \<lparr> fname = ''reorient_volume_and_save_tiff'',
          pos = [input_path, output_path, rotation, flip], kw = [] \<rparr>))"

text \<open>
  The handler every component has,
  \<^verbatim>\<open>except Exception as e: print(f"...: {e}"); raise\<close>.
  It catches an \<^verbatim>\<open>Exception\<close>, prints the message and raises it again; any other
  exception passes through it.
\<close>

definition except_Exception ::
  "string \<Rightarrow> exc \<Rightarrow> event list \<Rightarrow> ports \<Rightarrow> event list \<times> (exc + unit) \<times> ports" where
  "except_Exception msg e tr self =
     (if is_Exception e then (tr @ [Print [Lit msg, FmtExc e]], Inl e, self)
      else (tr, Inl e, self))"

text \<open>
  \<^verbatim>\<open>execute\<close> of each component: the part before the \<^verbatim>\<open>try\<close>, whose
  exception leaves \<^verbatim>\<open>execute\<close> as it is; then the library call inside
  \<^verbatim>\<open>try\<close>, then, where the class has an output port, the assignment of the
  result to it, then the message of success. The result is the trace, the
  exception raised or the return value \<^verbatim>\<open>None\<close>, and the ports afterwards.
  The unused argument \<^verbatim>\<open>ctx\<close> is left out, and \<^verbatim>\<open>print\<close> is taken not
  to raise.
\<close>

fun execute ::
  "component \<Rightarrow> library \<Rightarrow> ports \<Rightarrow> event list \<Rightarrow> event list \<times> (exc + unit) \<times> ports" where
  "execute CreateBDVXML lib self tr =
    (case before_try CreateBDVXML lib self tr of
       (tr0, Inl e) \<Rightarrow> (tr0, Inl e, self)
     | (tr0, Inr c) \<Rightarrow>
     case lib tr0 c of
       Inr r \<Rightarrow>
         (tr0 @ [Call c,
                Print [Lit ''BDV/XML file successfully created in '', Fmt (self ''tiles_folder'')]],
          Inr (), self)
     | Inl e \<Rightarrow> except_Exception ''Error during BDV/XML creation: '' e (tr0 @ [Call c]) self)"
| "execute StitchTiles lib self tr =
    (case before_try StitchTiles lib self tr of
       (tr0, Inl e) \<Rightarrow> (tr0, Inl e, self)
     | (tr0, Inr c) \<Rightarrow>
     case lib tr0 c of
       Inr r \<Rightarrow>
         (tr0 @ [Call c,
                Print [Lit ''Tile stitching executed successfully using XML: '',
                       Fmt (self ''xml_file_path''), Lit '' and Fiji: '',
                       Fmt (self ''fiji_path'')]],
          Inr (), self)
     | Inl e \<Rightarrow> except_Exception ''Error during tile stitching: '' e (tr0 @ [Call c]) self)"
| "execute BlendTiles lib self tr =
    (case before_try BlendTiles lib self tr of
       (tr0, Inl e) \<Rightarrow> (tr0, Inl e, self)
     | (tr0, Inr c) \<Rightarrow>
     case lib tr0 c of
       Inr r \<Rightarrow> (tr0 @ [Call c], Inr (), self)
     | Inl e \<Rightarrow> except_Exception ''Error during tile blending: '' e (tr0 @ [Call c]) self)"
| "execute VoxelSpacingResample lib self tr =
    (case before_try VoxelSpacingResample lib self tr of
       (tr0, Inl e) \<Rightarrow> (tr0, Inl e, self)
     | (tr0, Inr c) \<Rightarrow>
     case lib tr0 c of
       Inr resampled \<Rightarrow>
         (tr0 @ [Call c,
                Print [Lit ''Resampling completed. Resampled image saved to '',
                       Fmt (self ''output_path'')]],
          Inr (), self)
     | Inl e \<Rightarrow>
         except_Exception ''Error during voxel spacing resampling: '' e (tr0 @ [Call c]) self)"
| "execute ApplyManualAlignment lib self tr =
    (case before_try ApplyManualAlignment lib self tr of
       (tr0, Inl e) \<Rightarrow> (tr0, Inl e, self)
     | (tr0, Inr c) \<Rightarrow>
     case lib tr0 c of
       Inr r \<Rightarrow> (tr0 @ [Call c, Print [Lit ''Alignment applied successfully.'']], Inr (), self)
     | Inl e \<Rightarrow> except_Exception ''Error during alignment: '' e (tr0 @ [Call c]) self)"
| "execute LinearAlignmentTuning lib self tr =
    (case before_try LinearAlignmentTuning lib self tr of
       (tr0, Inl e) \<Rightarrow> (tr0, Inl e, self)
     | (tr0, Inr c) \<Rightarrow>
     case lib tr0 c of
       Inr result \<Rightarrow>
         (tr0 @ [Call c,
                Print [Lit ''Affine transformation matrix computed and saved to '',
                       Fmt (self ''output_matrix_file'')]],
          Inr (), self(''affine_matrix'' := result))
     | Inl e \<Rightarrow>
         except_Exception ''Error during linear alignment tuning: '' e (tr0 @ [Call c]) self)"
| "execute ConvertZarrToTiff lib self tr =
    (case before_try ConvertZarrToTiff lib self tr of
       (tr0, Inl e) \<Rightarrow> (tr0, Inl e, self)
     | (tr0, Inr c) \<Rightarrow>
     case lib tr0 c of
       Inr r \<Rightarrow>
         (tr0 @ [Call c,
                Print [Lit ''Converted Zarr file '', Fmt (self ''zarr_file''),
                       Lit '' to TIFF file '', Fmt (self ''tiff_file'')]],
          Inr (), self)
     | Inl e \<Rightarrow> except_Exception ''Error in convert_zarr_to_tiff: '' e (tr0 @ [Call c]) self)"
| "execute ConvertTiffToZarr lib self tr =
    (case before_try ConvertTiffToZarr lib self tr of
       (tr0, Inl e) \<Rightarrow> (tr0, Inl e, self)
     | (tr0, Inr c) \<Rightarrow>
     case lib tr0 c of
       Inr r \<Rightarrow>
         (tr0 @ [Call c,
                Print [Lit ''Converted TIFF file '', Fmt (self ''tiff_file''),
                       Lit '' to Zarr file '', Fmt (self ''zarr_file'')]],
          Inr (), self)
     | Inl e \<Rightarrow> except_Exception ''Error in convert_tiff_to_zarr: '' e (tr0 @ [Call c]) self)"
| "execute DownsampleTiff lib self tr =
    (case before_try DownsampleTiff lib self tr of
       (tr0, Inl e) \<Rightarrow> (tr0, Inl e, self)
     | (tr0, Inr c) \<Rightarrow>
     case lib tr0 c of
       Inr r \<Rightarrow>
         (tr0 @ [Call c,
                Print [Lit ''Downsampled TIFF from '', Fmt (self ''input_path''),
                       Lit '' and saved to '', Fmt (self ''output_path'')]],
          Inr (), self)
     | Inl e \<Rightarrow> except_Exception ''Error in downsample_tiff: '' e (tr0 @ [Call c]) self)"
| "execute StackTiffImages lib self tr =
    (case before_try StackTiffImages lib self tr of
       (tr0, Inl e) \<Rightarrow> (tr0, Inl e, self)
     | (tr0, Inr c) \<Rightarrow>
     case lib tr0 c of
       Inr r \<Rightarrow>
         (tr0 @ [Call c,
                Print [Lit ''Stacked TIFF images from '', Fmt (self ''file1''),
                       Lit '' and '', Fmt (self ''file2''),
                       Lit '' and saved to '', Fmt (self ''output_file'')]],
          Inr (), self)
     | Inl e \<Rightarrow> except_Exception ''Error in stack_tiff_images: '' e (tr0 @ [Call c]) self)"
| "execute ReorientVolume lib self tr =
    (case before_try ReorientVolume lib self tr of
       (tr0, Inl e) \<Rightarrow> (tr0, Inl e, self)
     | (tr0, Inr c) \<Rightarrow>
     case lib tr0 c of
       Inr result \<Rightarrow>
         (tr0 @ [Call c,
                Print [Lit ''Reoriented volume from '', Fmt (self ''input_path''),
                       Lit '' saved to '', Fmt (self ''output_path'')]],
          Inr (), self(''reoriented_volume'' := result))
     | Inl e \<Rightarrow>
         except_Exception ''Error in reorient_volume_and_save_tiff: '' e (tr0 @ [Call c]) self)"

text \<open>Concrete inputs used to run the components.\<close>

definition tuning_ports :: ports where
  "tuning_ports =
     (\<lambda>p. PNone)
       (''fixed_path'' := PStr ''fixed.tif'',
        ''moving_path'' := PStr ''moving.tif'',
        ''fixed_spacing'' := PList [PFloat 1, PFloat 1, PFloat 1],
        ''moving_spacing'' := PList [PFloat 1, PFloat 1, PFloat 1],
        ''output_matrix_file'' := PStr ''affine.txt'')"

definition tuning_call :: call where
  "tuning_call =
     \<lparr> fname = ''linear_alignment_tuning'', pos = [],
       kw = [(''fixed_path'', PStr ''fixed.tif''),
             (''moving_path'', PStr ''moving.tif''),
             (''fixed_spacing'', PList [PFloat 1, PFloat 1, PFloat 1]),
             (''moving_spacing'', PList [PFloat 1, PFloat 1, PFloat 1]),
             (''output_matrix_file'', PStr ''affine.txt''),
             (''steps'', PNone)] \<rparr>"

text \<open>A library in which the linear alignment raises an \<^verbatim>\<open>Exception\<close>.\<close>

definition lib_tuning_fails :: library where
  "lib_tuning_fails tr c =
     (if fname c = ''linear_alignment_tuning''
      then Inl (Exc ''registration failed'') else Inr (PObj (length tr)))"

text \<open>\<^verbatim>\<open>CreateBDVXML\<close> with a ragged list of offsets, on which \<^verbatim>\<open>np.array\<close> raises.\<close>

definition ragged_ports :: ports where
  "ragged_ports =
     (\<lambda>p. PNone)
       (''tiles_folder'' := PStr ''tiles'',
        ''fov_list'' := PList [PStr ''a.tif'', PStr ''b.tif''],
        ''offset_array'' := PList [PList [PInt 0, PInt 0, PInt 0], PList [PInt 1]],
        ''voxel_size'' := PList [PFloat 1, PFloat 1, PFloat 1])"

definition lib_array_fails :: library where
  "lib_array_fails tr c =
     (if fname c = ''np.array''
      then Inl (Exc ''inhomogeneous shape'') else Inr (PObj (length tr)))"

section \<open>Properties of the driver script\<close>

lemma calls_append [simp]: "calls (xs @ ys) = calls xs @ calls ys"
  by (induction xs rule: calls.induct) simp_all

lemma prints_append [simp]: "prints (xs @ ys) = prints xs @ prints ys"
  by (induction xs rule: prints.induct) simp_all

text \<open>
  The six ways a run of \<^verbatim>\<open>main\<close> can go: one of the five calls raises, or
  all five return.
\<close>

lemma main_cases:
  fixes lib :: library and argv :: invocation
  defines "args \<equiv> parse_args argv"
  defines "sp \<equiv> PArray (PList (map PFloat (args_spacing args)))"
  defines "bs \<equiv> PList (map PInt (args_blocksize args))"
  defines "c1 \<equiv> zarr_open (py_str (args_fix_image_path args))"
  defines "c2 \<equiv> zarr_open (py_str (args_move_image_path args))"
  defines "c3 \<equiv> np_loadtxt (py_str (args_init_transform_path args))"
  obtains
    (open_fix_fails) e where "main lib argv = ([Call c1], Inl e)" "lib [] c1 = Inl e"
  | (open_move_fails) e fix_image where "lib [] c1 = Inr fix_image"
      "main lib argv = ([Call c1, Call c2], Inl e)" "lib [Call c1] c2 = Inl e"
  | (loadtxt_fails) e fix_image move_image where "lib [] c1 = Inr fix_image"
      "lib [Call c1] c2 = Inr move_image"
      "main lib argv = ([Call c1, Call c2, Call c3], Inl e)" "lib [Call c1, Call c2] c3 = Inl e"
  | (piecewise_fails) e fix_image move_image affine c4 where "lib [] c1 = Inr fix_image"
      "lib [Call c1] c2 = Inr move_image" "lib [Call c1, Call c2] c3 = Inr affine"
      "c4 = distributed_piecewise_alignment_pipeline fix_image move_image sp bs
              (args_output_dir args) (args_output_name args) affine"
      "main lib argv = ([Call c1, Call c2, Call c3, Call c4], Inl e)"
      "lib [Call c1, Call c2, Call c3] c4 = Inl e"
  | (apply_fails) e fix_image move_image affine c4 deform c6 where "lib [] c1 = Inr fix_image"
      "lib [Call c1] c2 = Inr move_image" "lib [Call c1, Call c2] c3 = Inr affine"
      "c4 = distributed_piecewise_alignment_pipeline fix_image move_image sp bs
              (args_output_dir args) (args_output_name args) affine"
      "lib [Call c1, Call c2, Call c3] c4 = Inr deform"
      "c6 = distributed_apply_transform fix_image move_image sp bs
              (args_output_dir args) (args_output_name args) affine deform"
      "main lib argv = ([Call c1, Call c2, Call c3, Call c4, Print [Lit ''deform done''], Call c6], Inl e)"
      "lib [Call c1, Call c2, Call c3, Call c4, Print [Lit ''deform done'']] c6 = Inl e"
  | (completed) fix_image move_image affine c4 deform c6 aligned where "lib [] c1 = Inr fix_image"
      "lib [Call c1] c2 = Inr move_image" "lib [Call c1, Call c2] c3 = Inr affine"
      "c4 = distributed_piecewise_alignment_pipeline fix_image move_image sp bs
              (args_output_dir args) (args_output_name args) affine"
      "lib [Call c1, Call c2, Call c3] c4 = Inr deform"
      "c6 = distributed_apply_transform fix_image move_image sp bs
              (args_output_dir args) (args_output_name args) affine deform"
      "main lib argv = ([Call c1, Call c2, Call c3, Call c4, Print [Lit ''deform done''], Call c6], Inr PNone)"
      "lib [Call c1, Call c2, Call c3, Call c4, Print [Lit ''deform done'']] c6 = Inr aligned"
proof (cases "lib [] c1")
  case (Inl e)
  then show ?thesis
    using open_fix_fails [of e]
    by (simp add: main_def Let_def args_def c1_def)
next
  case f: (Inr fix_image)
  show ?thesis
  proof (cases "lib [Call c1] c2")
    case (Inl e)
    then show ?thesis
      using f open_move_fails [of fix_image e]
      by (simp add: main_def Let_def args_def c1_def c2_def)
  next
    case m: (Inr move_image)
    show ?thesis
    proof (cases "lib [Call c1, Call c2] c3")
      case (Inl e)
      then show ?thesis
        using f m loadtxt_fails [of fix_image move_image e]
        by (simp add: main_def Let_def args_def c1_def c2_def c3_def)
    next
      case a: (Inr affine)
      define c4 where "c4 = distributed_piecewise_alignment_pipeline fix_image move_image sp bs
              (args_output_dir args) (args_output_name args) affine"
      show ?thesis
      proof (cases "lib [Call c1, Call c2, Call c3] c4")
        case (Inl e)
        then show ?thesis
          using f m a piecewise_fails [of fix_image move_image affine c4 e] c4_def
          by (simp add: main_def Let_def args_def c1_def c2_def c3_def sp_def bs_def)
      next
        case d: (Inr deform)
        define c6 where "c6 = distributed_apply_transform fix_image move_image sp bs
              (args_output_dir args) (args_output_name args) affine deform"
        show ?thesis
        proof (cases "lib [Call c1, Call c2, Call c3, Call c4, Print [Lit ''deform done'']] c6")
          case (Inl e)
          then show ?thesis
            using f m a d apply_fails [of fix_image move_image affine c4 deform c6 e] c4_def c6_def
            by (simp add: main_def Let_def args_def c1_def c2_def c3_def sp_def bs_def)
        next
          case (Inr aligned)
          then show ?thesis
            using f m a d completed [of fix_image move_image affine c4 deform c6 aligned]
              c4_def c6_def
            by (simp add: main_def Let_def args_def c1_def c2_def c3_def sp_def bs_def)
        qed
      qed
    qed
  qed
qed

lemmas call_defs = zarr_open_def np_loadtxt_def distributed_piecewise_alignment_pipeline_def
  distributed_apply_transform_def

text \<open>The run in which every call returns.\<close>

lemma main_lib_ok:
  "main lib_ok argv0 =
    ([Call (zarr_open (PStr ''fix.zarr'')),
      Call (zarr_open (PStr ''move.zarr'')),
      Call (np_loadtxt (PStr ''m.txt'')),
      Call (distributed_piecewise_alignment_pipeline (PObj 0) (PObj 1)
              (PArray (PList [PFloat 0.1507417, PFloat 0.1507417, PFloat 0.1507417]))
              (PList [PInt 512, PInt 512, PInt 512]) (Some ''out'') (Some ''r1'') (PObj 2)),
      Print [Lit ''deform done''],
      Call (distributed_apply_transform (PObj 0) (PObj 1)
              (PArray (PList [PFloat 0.1507417, PFloat 0.1507417, PFloat 0.1507417]))
              (PList [PInt 512, PInt 512, PInt 512]) (Some ''out'') (Some ''r1'') (PObj 2) (PObj 3))],
     Inr PNone)"
  by (simp add: main_def Let_def parse_args_def argv0_def lib_ok_def eval_nat_numeral)

text \<open>
  Claim C1. In a run with \<^verbatim>\<open>--output_dir D\<close> and \<^verbatim>\<open>--output_name N\<close>, the
  calls that are given a write path are, in order, the piecewise alignment with
  \<^verbatim>\<open>D/N_deformation_field.zarr\<close> and the transform application with
  \<^verbatim>\<open>D/N_aligned_round.zarr\<close>: a run that ends early has made a prefix of these
  two writes, a run that returns has made exactly these two, and no other path
  is ever passed as a write path.
\<close>

theorem C1_output_paths:
  assumes "cli_output_dir argv = Some D" and "cli_output_name argv = Some N"
  shows "writes (fst (main lib argv))
           \<in> {[],
              [(''distributed_piecewise_alignment_pipeline'',
                  PStr (D @ ''/'' @ N @ ''_deformation_field.zarr''))],
              [(''distributed_piecewise_alignment_pipeline'',
                  PStr (D @ ''/'' @ N @ ''_deformation_field.zarr'')),
               (''distributed_apply_transform'',
                  PStr (D @ ''/'' @ N @ ''_aligned_round.zarr''))]}
         \<and> (\<forall>v. snd (main lib argv) = Inr v \<longrightarrow>
               writes (fst (main lib argv)) =
                 [(''distributed_piecewise_alignment_pipeline'',
                     PStr (D @ ''/'' @ N @ ''_deformation_field.zarr'')),
                  (''distributed_apply_transform'',
                     PStr (D @ ''/'' @ N @ ''_aligned_round.zarr''))])"
  using assms
  by (cases rule: main_cases [of lib argv])
     (simp_all add: writes_def kwarg_def call_defs parse_args_def)

theorem C1_output_paths_witness:
  "cli_output_dir argv0 = Some ''out'' \<and> cli_output_name argv0 = Some ''r1'' \<and>
   snd (main lib_ok argv0) = Inr PNone \<and>
   writes (fst (main lib_ok argv0)) =
     [(''distributed_piecewise_alignment_pipeline'', PStr ''out/r1_deformation_field.zarr''),
      (''distributed_apply_transform'', PStr ''out/r1_aligned_round.zarr'')]"
proof -
  have d: "cli_output_dir argv0 = Some ''out''" and n: "cli_output_name argv0 = Some ''r1''"
    by (simp_all add: argv0_def)
  have r: "snd (main lib_ok argv0) = Inr PNone"
    by (simp add: main_lib_ok)
  from C1_output_paths [OF d n, of lib_ok] r d n show ?thesis
    by simp
qed

text \<open>The run in which the piecewise alignment raises: its trace and its outcome.\<close>

lemma main_lib_piecewise_fails:
  "main lib_piecewise_fails argv0 =
    ([Call (zarr_open (PStr ''fix.zarr'')),
      Call (zarr_open (PStr ''move.zarr'')),
      Call (np_loadtxt (PStr ''m.txt'')),
      Call (distributed_piecewise_alignment_pipeline (PObj 0) (PObj 1)
              (PArray (PList [PFloat 0.1507417, PFloat 0.1507417, PFloat 0.1507417]))
              (PList [PInt 512, PInt 512, PInt 512]) (Some ''out'') (Some ''r1'') (PObj 2))],
     Inl (Exc ''worker died''))"
  by (simp add: main_def Let_def parse_args_def argv0_def lib_piecewise_fails_def call_defs
        eval_nat_numeral)

text \<open>
  Claim C2 says that every external call of the driver is wrapped in a
  \<^verbatim>\<open>try\<close>/\<^verbatim>\<open>except\<close> that logs the error and re-raises it. The driver has
  no \<^verbatim>\<open>try\<close> statement. In the run below the piecewise alignment raises:
  the exception leaves \<^verbatim>\<open>main\<close>, and the driver has printed nothing.
\<close>

theorem C2_no_logging_counterexample:
  "snd (main lib_piecewise_fails argv0) = Inl (Exc ''worker died'')
   \<and> prints (fst (main lib_piecewise_fails argv0)) = []"
  by (simp add: main_lib_piecewise_fails)

text \<open>
  Claim C2, as the code has it. No call of the driver is wrapped: the
  exceptions raised by library calls during a run are exactly the one
  \<^verbatim>\<open>main\<close> ends with (none when it returns); when \<^verbatim>\<open>main\<close> ends with an
  exception, the call that raised it is the last event of the run, so nothing
  is logged or called after it; and the only message the driver ever prints is
  \<^verbatim>\<open>deform done\<close>, never an error: it is printed once for each time the
  piecewise alignment returns, and the call made last before it is that
  returning call.
\<close>

theorem C2_exception_propagates:
  "raised lib (fst (main lib argv)) = (case snd (main lib argv) of Inl e \<Rightarrow> [e] | Inr v \<Rightarrow> [])
   \<and> (\<forall>e. snd (main lib argv) = Inl e \<longrightarrow>
         (\<exists>tr c. fst (main lib argv) = tr @ [Call c] \<and> lib tr c = Inl e))
   \<and> set (prints (fst (main lib argv))) \<subseteq> {[Lit ''deform done'']}
   \<and> prints_after lib [] None (fst (main lib argv))
       = map (\<lambda>deform. ([Lit ''deform done''],
                         Some (''distributed_piecewise_alignment_pipeline'', Inr deform)))
           (returned lib (fst (main lib argv)) ''distributed_piecewise_alignment_pipeline'')"
proof (cases rule: main_cases [of lib argv])
  case (open_fix_fails e)
  then show ?thesis by (simp add: raised_def returned_def call_defs)
next
  case (open_move_fails e fix_image)
  then show ?thesis by (simp add: raised_def returned_def call_defs)
next
  case (loadtxt_fails e fix_image move_image)
  then show ?thesis by (simp add: raised_def returned_def call_defs)
next
  case (piecewise_fails e fix_image move_image affine c4)
  then show ?thesis by (simp add: raised_def returned_def call_defs)
next
  case (apply_fails e fix_image move_image affine c4 deform c6)
  then show ?thesis by (simp add: raised_def returned_def call_defs)
next
  case (completed fix_image move_image affine c4 deform c6 aligned)
  then show ?thesis by (simp add: raised_def returned_def call_defs)
qed

text \<open>
  The run in which the piecewise alignment raises prints nothing; the run in
  which every call returns prints the message after the piecewise alignment.
\<close>

theorem C2_exception_propagates_witness:
  "snd (main lib_piecewise_fails argv0) = Inl (Exc ''worker died'')
   \<and> raised lib_piecewise_fails (fst (main lib_piecewise_fails argv0)) = [Exc ''worker died'']
   \<and> (\<exists>tr c. fst (main lib_piecewise_fails argv0) = tr @ [Call c]
         \<and> lib_piecewise_fails tr c = Inl (Exc ''worker died''))
   \<and> returned lib_piecewise_fails (fst (main lib_piecewise_fails argv0))
         ''distributed_piecewise_alignment_pipeline'' = []
   \<and> prints_after lib_piecewise_fails [] None (fst (main lib_piecewise_fails argv0)) = []
   \<and> returned lib_ok (fst (main lib_ok argv0)) ''distributed_piecewise_alignment_pipeline''
       = [PObj 3]
   \<and> prints_after lib_ok [] None (fst (main lib_ok argv0))
       = [([Lit ''deform done''],
           Some (''distributed_piecewise_alignment_pipeline'', Inr (PObj 3)))]"
proof -
  have r: "snd (main lib_piecewise_fails argv0) = Inl (Exc ''worker died'')"
    by (simp add: main_lib_piecewise_fails)
  have n: "returned lib_piecewise_fails (fst (main lib_piecewise_fails argv0))
             ''distributed_piecewise_alignment_pipeline'' = []"
    by (simp add: main_lib_piecewise_fails returned_def call_defs lib_piecewise_fails_def)
  have d: "returned lib_ok (fst (main lib_ok argv0)) ''distributed_piecewise_alignment_pipeline''
             = [PObj 3]"
    by (simp add: main_lib_ok returned_def call_defs lib_ok_def)
  from C2_exception_propagates [of lib_piecewise_fails argv0]
       C2_exception_propagates [of lib_ok argv0] r n d
  show ?thesis
    by simp
qed

text \<open>
  Claim C4 says that every cluster configuration the driver builds has
  \<^verbatim>\<open>threads_per_worker\<close> equal to 1 and restricts the math libraries of a
  worker to a single thread. The first half holds; the three variables
  \<^verbatim>\<open>MKL_NUM_THREADS\<close>, \<^verbatim>\<open>OMP_NUM_THREADS\<close> and \<^verbatim>\<open>OPENBLAS_NUM_THREADS\<close>
  are set to 6, not to 1, in the configuration the driver passes.
\<close>

theorem C4_math_threads_counterexample:
  "cluster_configs (fst (main lib_ok argv0)) = [cluster_config_align, cluster_config_apply]
   \<and> math_threads cluster_config_align = [Some (PInt 6), Some (PInt 6), Some (PInt 6)]
   \<and> math_threads cluster_config_align \<noteq> [Some (PInt 1), Some (PInt 1), Some (PInt 1)]"
  by (simp add: main_lib_ok cluster_configs_def kwarg_def call_defs math_threads_def
        env_override_def cluster_config_align_def pre_spawn_environ_def)

text \<open>
  Claim C4, as the code has it. In every run, every cluster configuration passed
  to a library call has \<^verbatim>\<open>threads_per_worker\<close> equal to 1, and sets each of
  \<^verbatim>\<open>MKL_NUM_THREADS\<close>, \<^verbatim>\<open>OMP_NUM_THREADS\<close> and \<^verbatim>\<open>OPENBLAS_NUM_THREADS\<close> to 6
  in the environment of the workers.
\<close>

theorem C4_thread_settings:
  "\<forall>cfg \<in> set (cluster_configs (fst (main lib argv))).
     dict_get cfg ''threads_per_worker'' = Some (PInt 1)
     \<and> math_threads cfg = [Some (PInt 6), Some (PInt 6), Some (PInt 6)]"
  by (cases rule: main_cases [of lib argv])
     (simp_all add: cluster_configs_def kwarg_def call_defs math_threads_def env_override_def
        cluster_config_align_def cluster_config_apply_def pre_spawn_environ_def)

text \<open>The run in which every call returns passes both configurations.\<close>

theorem C4_thread_settings_witness:
  "cluster_configs (fst (main lib_ok argv0)) = [cluster_config_align, cluster_config_apply]
   \<and> dict_get cluster_config_align ''threads_per_worker'' = Some (PInt 1)
   \<and> math_threads cluster_config_align = [Some (PInt 6), Some (PInt 6), Some (PInt 6)]
   \<and> dict_get cluster_config_apply ''threads_per_worker'' = Some (PInt 1)
   \<and> math_threads cluster_config_apply = [Some (PInt 6), Some (PInt 6), Some (PInt 6)]"
proof -
  have c: "cluster_configs (fst (main lib_ok argv0)) = [cluster_config_align, cluster_config_apply]"
    by (simp add: main_lib_ok cluster_configs_def kwarg_def call_defs)
  from C4_thread_settings [of lib_ok argv0] c show ?thesis
    by simp
qed

text \<open>The run in which the loaded matrix has two rows and three columns.\<close>

lemma main_lib_nonsquare:
  "main lib_nonsquare argv0 =
    ([Call (zarr_open (PStr ''fix.zarr'')),
      Call (zarr_open (PStr ''move.zarr'')),
      Call (np_loadtxt (PStr ''m.txt'')),
      Call (distributed_piecewise_alignment_pipeline (PObj 0) (PObj 1)
              (PArray (PList [PFloat 0.1507417, PFloat 0.1507417, PFloat 0.1507417]))
              (PList [PInt 512, PInt 512, PInt 512]) (Some ''out'') (Some ''r1'') matrix_2x3),
      Print [Lit ''deform done''],
      Call (distributed_apply_transform (PObj 0) (PObj 1)
              (PArray (PList [PFloat 0.1507417, PFloat 0.1507417, PFloat 0.1507417]))
              (PList [PInt 512, PInt 512, PInt 512]) (Some ''out'') (Some ''r1'') matrix_2x3
              (PObj 3))],
     Inr PNone)"
  by (simp add: main_def Let_def parse_args_def argv0_def lib_nonsquare_def call_defs
        eval_nat_numeral)

text \<open>
  Claim C5 says that a malformed or non-square matrix file makes the run fail
  while the initial transform is loaded, before any distributed work is
  dispatched. The driver calls \<^verbatim>\<open>np.loadtxt\<close> and checks nothing about what it
  returns. A file of two rows of three numbers is well-formed for
  \<^verbatim>\<open>np.loadtxt\<close>, which returns the 2 by 3 array; the driver then dispatches
  the piecewise alignment with that array as its static transform, and the run
  goes on to its end.
\<close>

theorem C5_nonsquare_counterexample:
  "\<not> is_square matrix_2x3
   \<and> returned lib_nonsquare (fst (main lib_nonsquare argv0)) ''np.loadtxt'' = [matrix_2x3]
   \<and> calls_to ''distributed_piecewise_alignment_pipeline'' (fst (main lib_nonsquare argv0)) =
       [distributed_piecewise_alignment_pipeline (PObj 0) (PObj 1)
          (PArray (PList [PFloat 0.1507417, PFloat 0.1507417, PFloat 0.1507417]))
          (PList [PInt 512, PInt 512, PInt 512]) (Some ''out'') (Some ''r1'') matrix_2x3]
   \<and> snd (main lib_nonsquare argv0) = Inr PNone"
  by (simp add: main_lib_nonsquare returned_def calls_to_def call_defs lib_nonsquare_def
        matrix_2x3_def)

text \<open>
  Claim C5, as the code has it. When both volumes have been opened and loading
  the file given as \<^verbatim>\<open>--init_transform_path\<close> raises, as \<^verbatim>\<open>np.loadtxt\<close> does on
  a malformed file, the run ends with that exception at the load: the trace
  holds the two opens and the load, and no distributed call.
\<close>

theorem C5_load_failure_before_dispatch:
  assumes "lib [] (zarr_open (py_str (cli_fix_image_path argv))) = Inr fix_image"
    and "lib [Call (zarr_open (py_str (cli_fix_image_path argv)))]
           (zarr_open (py_str (cli_move_image_path argv))) = Inr move_image"
    and "lib [Call (zarr_open (py_str (cli_fix_image_path argv))),
              Call (zarr_open (py_str (cli_move_image_path argv)))]
           (np_loadtxt (py_str (cli_init_transform_path argv))) = Inl e"
  shows "main lib argv =
           ([Call (zarr_open (py_str (cli_fix_image_path argv))),
             Call (zarr_open (py_str (cli_move_image_path argv))),
             Call (np_loadtxt (py_str (cli_init_transform_path argv)))], Inl e)
         \<and> distributed_calls (fst (main lib argv)) = []"
  using assms
  by (simp add: main_def Let_def parse_args_def distributed_calls_def calls_to_def call_defs)

text \<open>The run in which loading the matrix raises.\<close>

theorem C5_load_failure_before_dispatch_witness:
  "main lib_loadtxt_fails argv0 =
     ([Call (zarr_open (PStr ''fix.zarr'')),
       Call (zarr_open (PStr ''move.zarr'')),
       Call (np_loadtxt (PStr ''m.txt''))], Inl (Exc ''could not convert string to float''))
   \<and> distributed_calls (fst (main lib_loadtxt_fails argv0)) = []"
proof -
  have 1: "lib_loadtxt_fails [] (zarr_open (py_str (cli_fix_image_path argv0))) = Inr (PObj 0)"
    by (simp add: lib_loadtxt_fails_def zarr_open_def)
  have 2: "lib_loadtxt_fails [Call (zarr_open (py_str (cli_fix_image_path argv0)))]
             (zarr_open (py_str (cli_move_image_path argv0))) = Inr (PObj 1)"
    by (simp add: lib_loadtxt_fails_def zarr_open_def)
  have 3: "lib_loadtxt_fails [Call (zarr_open (py_str (cli_fix_image_path argv0))),
              Call (zarr_open (py_str (cli_move_image_path argv0)))]
             (np_loadtxt (py_str (cli_init_transform_path argv0)))
           = Inl (Exc ''could not convert string to float'')"
    by (simp add: lib_loadtxt_fails_def np_loadtxt_def)
  from C5_load_failure_before_dispatch [OF 1 2 3] show ?thesis
    by (simp add: argv0_def distributed_calls_def calls_to_def call_defs)
qed

text \<open>
  Claim C6. In every run, the piecewise alignment is called once the matrix has
  been loaded, with the loaded matrix as its only static transform; the
  transform application is called once the piecewise alignment has returned,
  with the list of the loaded matrix first and the returned deformation field
  second; and the matrix is loaded from the path given as
  \<^verbatim>\<open>--init_transform_path\<close>.
\<close>

theorem C6_transform_lists:
  "map (\<lambda>c. kwarg c ''static_transform_list'')
       (calls_to ''distributed_piecewise_alignment_pipeline'' (fst (main lib argv)))
     = map (\<lambda>affine. Some (PList [affine])) (returned lib (fst (main lib argv)) ''np.loadtxt'')
   \<and> map (\<lambda>c. kwarg c ''transform_list'')
         (calls_to ''distributed_apply_transform'' (fst (main lib argv)))
     = concat (map (\<lambda>affine. map (\<lambda>deform. Some (PList [affine, deform]))
                      (returned lib (fst (main lib argv))
                         ''distributed_piecewise_alignment_pipeline''))
                 (returned lib (fst (main lib argv)) ''np.loadtxt''))
   \<and> (\<forall>c \<in> set (calls_to ''np.loadtxt'' (fst (main lib argv))).
         pos c = [py_str (cli_init_transform_path argv)])"
  by (cases rule: main_cases [of lib argv])
     (simp_all add: returned_def calls_to_def kwarg_def call_defs parse_args_def)

text \<open>
  In the run where every call returns, the load returns object 2 and the
  piecewise alignment object 3.
\<close>

theorem C6_transform_lists_witness:
  "returned lib_ok (fst (main lib_ok argv0)) ''np.loadtxt'' = [PObj 2]
   \<and> returned lib_ok (fst (main lib_ok argv0)) ''distributed_piecewise_alignment_pipeline''
       = [PObj 3]
   \<and> map (\<lambda>c. kwarg c ''static_transform_list'')
         (calls_to ''distributed_piecewise_alignment_pipeline'' (fst (main lib_ok argv0)))
       = [Some (PList [PObj 2])]
   \<and> map (\<lambda>c. kwarg c ''transform_list'')
         (calls_to ''distributed_apply_transform'' (fst (main lib_ok argv0)))
       = [Some (PList [PObj 2, PObj 3])]
   \<and> map pos (calls_to ''np.loadtxt'' (fst (main lib_ok argv0))) = [[PStr ''m.txt'']]"
proof -
  have a: "returned lib_ok (fst (main lib_ok argv0)) ''np.loadtxt'' = [PObj 2]"
    by (simp add: main_lib_ok returned_def call_defs lib_ok_def)
  have d: "returned lib_ok (fst (main lib_ok argv0)) ''distributed_piecewise_alignment_pipeline''
             = [PObj 3]"
    by (simp add: main_lib_ok returned_def call_defs lib_ok_def)
  have l: "calls_to ''np.loadtxt'' (fst (main lib_ok argv0)) = [np_loadtxt (PStr ''m.txt'')]"
    by (simp add: main_lib_ok calls_to_def call_defs)
  from C6_transform_lists [of lib_ok argv0] a d l show ?thesis
    by (simp add: np_loadtxt_def)
qed

text \<open>
  Claim C7. When \<^verbatim>\<open>--spacing\<close> is omitted, \<^verbatim>\<open>args.spacing\<close> is the three floats
  0.1507417, and both distributed calls get the array of these as the spacing of
  the fixed and of the moving volume; when \<^verbatim>\<open>--blocksize\<close> is omitted,
  \<^verbatim>\<open>args.blocksize\<close> is the three integers 512, and both distributed calls get
  that list as their block size.
\<close>

theorem C7_cli_defaults:
  "(cli_spacing argv = None \<longrightarrow>
      args_spacing (parse_args argv) = [0.1507417, 0.1507417, 0.1507417]
      \<and> (\<forall>c \<in> set (distributed_calls (fst (main lib argv))).
            take 2 (drop 2 (pos c)) =
              [PArray (PList [PFloat 0.1507417, PFloat 0.1507417, PFloat 0.1507417]),
               PArray (PList [PFloat 0.1507417, PFloat 0.1507417, PFloat 0.1507417])]))
   \<and> (cli_blocksize argv = None \<longrightarrow>
      args_blocksize (parse_args argv) = [512, 512, 512]
      \<and> (\<forall>c \<in> set (distributed_calls (fst (main lib argv))).
            kwarg c ''blocksize'' = Some (PList [PInt 512, PInt 512, PInt 512])))"
  by (cases rule: main_cases [of lib argv])
     (simp_all add: distributed_calls_def calls_to_def kwarg_def call_defs parse_args_def)

text \<open>An invocation that omits both flags, in a run that makes both distributed calls.\<close>

theorem C7_cli_defaults_witness:
  "cli_spacing argv0 = None \<and> cli_blocksize argv0 = None
   \<and> map (\<lambda>c. (fname c, take 2 (drop 2 (pos c)), kwarg c ''blocksize''))
         (distributed_calls (fst (main lib_ok argv0)))
       = [(''distributed_piecewise_alignment_pipeline'',
           [PArray (PList [PFloat 0.1507417, PFloat 0.1507417, PFloat 0.1507417]),
            PArray (PList [PFloat 0.1507417, PFloat 0.1507417, PFloat 0.1507417])],
           Some (PList [PInt 512, PInt 512, PInt 512])),
          (''distributed_apply_transform'',
           [PArray (PList [PFloat 0.1507417, PFloat 0.1507417, PFloat 0.1507417]),
            PArray (PList [PFloat 0.1507417, PFloat 0.1507417, PFloat 0.1507417])],
           Some (PList [PInt 512, PInt 512, PInt 512]))]"
proof -
  have s: "cli_spacing argv0 = None" and b: "cli_blocksize argv0 = None"
    by (simp_all add: argv0_def)
  have n: "map fname (distributed_calls (fst (main lib_ok argv0)))
             = [''distributed_piecewise_alignment_pipeline'', ''distributed_apply_transform'']"
    by (simp add: main_lib_ok distributed_calls_def calls_to_def call_defs)
  then obtain c4 c6 where l: "distributed_calls (fst (main lib_ok argv0)) = [c4, c6]"
    by auto
  from C7_cli_defaults [of argv0 lib_ok] s b n l show ?thesis
    by simp
qed




text \<open>
  Claim C9. Whatever the command line and whatever the library answers, a call
  of the piecewise alignment has as its fifth and last positional argument the
  one-step list \<^verbatim>\<open>[('deform', {...})]\<close> with the four hard-coded parameters,
  overlap 0.3 and \<^verbatim>\<open>rebalance_for_missing_neighbors\<close> true.
\<close>

theorem C9_fixed_alignment_steps:
  "\<forall>c \<in> set (calls_to ''distributed_piecewise_alignment_pipeline'' (fst (main lib argv))).
     drop 4 (pos c) =
       [PList [PTuple [PStr ''deform'',
                       PDict [(''alignment_spacing'', PFloat 0.4),
                              (''smooth_sigmas'', PTuple [PInt 0]),
                              (''control_point_spacing'', PFloat 100.0),
                              (''control_point_levels'', PTuple [PInt 1])]]]]
     \<and> kwarg c ''overlap'' = Some (PFloat 0.3)
     \<and> kwarg c ''rebalance_for_missing_neighbors'' = Some (PBool True)"
  by (cases rule: main_cases [of lib argv])
     (simp_all add: calls_to_def kwarg_def call_defs steps_def deform_kwargs_def)

text \<open>The run in which every call returns makes the piecewise call once.\<close>

theorem C9_fixed_alignment_steps_witness:
  "map (\<lambda>c. (drop 4 (pos c), kwarg c ''overlap'', kwarg c ''rebalance_for_missing_neighbors''))
       (calls_to ''distributed_piecewise_alignment_pipeline'' (fst (main lib_ok argv0)))
     = [([PList [PTuple [PStr ''deform'',
                         PDict [(''alignment_spacing'', PFloat 0.4),
                                (''smooth_sigmas'', PTuple [PInt 0]),
                                (''control_point_spacing'', PFloat 100.0),
                                (''control_point_levels'', PTuple [PInt 1])]]]],
         Some (PFloat 0.3), Some (PBool True))]"
proof -
  have n: "length (calls_to ''distributed_piecewise_alignment_pipeline''
             (fst (main lib_ok argv0))) = 1"
    by (simp add: main_lib_ok calls_to_def call_defs)
  then obtain c4 where
    l: "calls_to ''distributed_piecewise_alignment_pipeline'' (fst (main lib_ok argv0)) = [c4]"
    by (auto simp: length_Suc_conv)
  from C9_fixed_alignment_steps [of lib_ok argv0] l show ?thesis
    by simp
qed

text \<open>
  Claim C10. An invocation carries one spacing; in every run, each distributed
  call gets the array of \<^verbatim>\<open>args.spacing\<close> as its third positional argument
  (the spacing of the fixed volume) and the same array as its fourth (the
  spacing of the moving volume).
\<close>

theorem C10_single_spacing:
  "\<forall>c \<in> set (distributed_calls (fst (main lib argv))).
     4 \<le> length (pos c)
     \<and> pos c ! 2 = PArray (PList (map PFloat (args_spacing (parse_args argv))))
     \<and> pos c ! 3 = pos c ! 2"
  by (cases rule: main_cases [of lib argv])
     (simp_all add: distributed_calls_def calls_to_def call_defs)

text \<open>A run with \<^verbatim>\<open>--spacing 2 1 1\<close>: both stages get it for both volumes.\<close>

theorem C10_single_spacing_witness:
  "map (\<lambda>c. (fname c, pos c ! 2, pos c ! 3))
       (distributed_calls (fst (main lib_ok (argv0\<lparr>cli_spacing := Some (2, 1, 1)\<rparr>))))
     = [(''distributed_piecewise_alignment_pipeline'',
         PArray (PList [PFloat 2, PFloat 1, PFloat 1]),
         PArray (PList [PFloat 2, PFloat 1, PFloat 1])),
        (''distributed_apply_transform'',
         PArray (PList [PFloat 2, PFloat 1, PFloat 1]),
         PArray (PList [PFloat 2, PFloat 1, PFloat 1]))]"
proof -
  have n: "map fname (distributed_calls
             (fst (main lib_ok (argv0\<lparr>cli_spacing := Some (2, 1, 1)\<rparr>))))
           = [''distributed_piecewise_alignment_pipeline'', ''distributed_apply_transform'']"
    by (simp add: main_def Let_def parse_args_def argv0_def lib_ok_def distributed_calls_def
          calls_to_def call_defs)
  then obtain c4 c6 where
    l: "distributed_calls (fst (main lib_ok (argv0\<lparr>cli_spacing := Some (2, 1, 1)\<rparr>)))
          = [c4, c6]"
    by auto
  have s: "args_spacing (parse_args (argv0\<lparr>cli_spacing := Some (2, 1, 1)\<rparr>)) = [2, 1, 1]"
    by (simp add: parse_args_def)
  from C10_single_spacing [of lib_ok "argv0\<lparr>cli_spacing := Some (2, 1, 1)\<rparr>"] n l s
  show ?thesis
    by simp
qed

section \<open>Properties of the pipeline components\<close>

text \<open>
  Claim C3. For each of the eleven components, once \<^verbatim>\<open>execute\<close> has reached
  its \<^verbatim>\<open>try\<close> it makes one library call and has returned or raised when the
  call has. When the call raises, \<^verbatim>\<open>execute\<close> raises the same exception and
  leaves every port as it was, so an output port that was unset is still
  unset; when what is raised is an \<^verbatim>\<open>Exception\<close>, the component has printed a
  message holding it, right after the call. When the call returns a value,
  \<^verbatim>\<open>execute\<close> returns and the only port changed is the output port of the
  component, \<^verbatim>\<open>affine_matrix\<close> of \<^verbatim>\<open>LinearAlignmentTuning\<close> or
  \<^verbatim>\<open>reoriented_volume\<close> of \<^verbatim>\<open>ReorientVolume\<close>, which now holds that value.
  An exception raised before the \<^verbatim>\<open>try\<close> leaves \<^verbatim>\<open>execute\<close> with no
  message and no port changed; ten of the components always reach their
  \<^verbatim>\<open>try\<close>, with nothing called before it, and \<^verbatim>\<open>CreateBDVXML\<close> reaches it
  when \<^verbatim>\<open>np.array\<close> returns, passing on the array returned.
\<close>

theorem C3_failed_component_sets_no_port:
  "(\<forall>tr0 c. before_try cp lib self tr = (tr0, Inr c) \<longrightarrow>
       calls (fst (execute cp lib self tr)) = calls tr0 @ [c]
       \<and> (\<forall>e. lib tr0 c = Inl e \<longrightarrow>
             fst (snd (execute cp lib self tr)) = Inl e
             \<and> snd (snd (execute cp lib self tr)) = self
             \<and> (is_Exception e \<longrightarrow>
                  (\<exists>msg. fst (execute cp lib self tr)
                           = tr0 @ [Call c, Print [Lit msg, FmtExc e]])))
       \<and> (\<forall>v. lib tr0 c = Inr v \<longrightarrow>
             fst (snd (execute cp lib self tr)) = Inr ()
             \<and> snd (snd (execute cp lib self tr))
                 = (case output_port cp of None \<Rightarrow> self | Some p \<Rightarrow> self(p := v))))
   \<and> (\<forall>tr0 e. before_try cp lib self tr = (tr0, Inl e) \<longrightarrow>
         execute cp lib self tr = (tr0, Inl e, self))
   \<and> (cp \<noteq> CreateBDVXML \<longrightarrow> (\<exists>c. before_try cp lib self tr = (tr, Inr c)))
   \<and> (cp = CreateBDVXML \<longrightarrow>
         fst (before_try cp lib self tr) = tr @ [Call (np_array (self ''offset_array''))]
         \<and> (\<forall>e. lib tr (np_array (self ''offset_array'')) = Inl e \<longrightarrow>
               snd (before_try cp lib self tr) = Inl e)
         \<and> (\<forall>a. lib tr (np_array (self ''offset_array'')) = Inr a \<longrightarrow>
               (\<exists>c. snd (before_try cp lib self tr) = Inr c
                    \<and> fname c = ''create_bdv_xml''
                    \<and> kwarg c ''offset_array'' = Some a)))"
proof (cases cp)
  case CreateBDVXML
  then show ?thesis
    by (cases "lib tr (np_array (self ''offset_array''))")
       (auto simp: except_Exception_def Let_def kwarg_def split: sum.splits)
qed (auto simp: except_Exception_def Let_def split: sum.splits)

text \<open>
  \<^verbatim>\<open>LinearAlignmentTuning\<close> with its output port unset, run against a library
  that raises and against one that returns, and \<^verbatim>\<open>CreateBDVXML\<close> on a ragged
  list of offsets.
\<close>

theorem C3_failed_component_sets_no_port_witness:
  "before_try LinearAlignmentTuning lib_tuning_fails tuning_ports [] = ([], Inr tuning_call)
   \<and> lib_tuning_fails [] tuning_call = Inl (Exc ''registration failed'')
   \<and> is_Exception (Exc ''registration failed'')
   \<and> execute LinearAlignmentTuning lib_tuning_fails tuning_ports []
       = ([Call tuning_call,
           Print [Lit ''Error during linear alignment tuning: '',
                  FmtExc (Exc ''registration failed'')]],
          Inl (Exc ''registration failed''), tuning_ports)
   \<and> tuning_ports ''affine_matrix'' = PNone
   \<and> before_try LinearAlignmentTuning lib_ok tuning_ports [] = ([], Inr tuning_call)
   \<and> lib_ok [] tuning_call = Inr (PObj 0)
   \<and> fst (snd (execute LinearAlignmentTuning lib_ok tuning_ports [])) = Inr ()
   \<and> snd (snd (execute LinearAlignmentTuning lib_ok tuning_ports []))
       = tuning_ports(''affine_matrix'' := PObj 0)
   \<and> before_try CreateBDVXML lib_array_fails ragged_ports []
       = ([Call (np_array (PList [PList [PInt 0, PInt 0, PInt 0], PList [PInt 1]]))],
          Inl (Exc ''inhomogeneous shape''))
   \<and> execute CreateBDVXML lib_array_fails ragged_ports []
       = ([Call (np_array (PList [PList [PInt 0, PInt 0, PInt 0], PList [PInt 1]]))],
          Inl (Exc ''inhomogeneous shape''), ragged_ports)"
proof -
  have b1: "before_try LinearAlignmentTuning lib_tuning_fails tuning_ports []
              = ([], Inr tuning_call)"
    by (simp add: tuning_ports_def tuning_call_def)
  have f: "lib_tuning_fails [] tuning_call = Inl (Exc ''registration failed'')"
    by (simp add: lib_tuning_fails_def tuning_call_def)
  have b2: "before_try LinearAlignmentTuning lib_ok tuning_ports [] = ([], Inr tuning_call)"
    by (simp add: tuning_ports_def tuning_call_def)
  have s: "lib_ok [] tuning_call = Inr (PObj 0)"
    by (simp add: lib_ok_def)
  have u: "tuning_ports ''affine_matrix'' = PNone"
    by (simp add: tuning_ports_def)
  have m: "fst (execute LinearAlignmentTuning lib_tuning_fails tuning_ports [])
             = [Call tuning_call,
                Print [Lit ''Error during linear alignment tuning: '',
                       FmtExc (Exc ''registration failed'')]]"
    using b1 f by (simp add: except_Exception_def del: before_try.simps)
  have b3: "before_try CreateBDVXML lib_array_fails ragged_ports []
       = ([Call (np_array (PList [PList [PInt 0, PInt 0, PInt 0], PList [PInt 1]]))],
          Inl (Exc ''inhomogeneous shape''))"
    by (simp add: lib_array_fails_def ragged_ports_def np_array_def)
  from C3_failed_component_sets_no_port
         [of LinearAlignmentTuning lib_tuning_fails tuning_ports "[]"]
       C3_failed_component_sets_no_port [of LinearAlignmentTuning lib_ok tuning_ports "[]"]
       C3_failed_component_sets_no_port [of CreateBDVXML lib_array_fails ragged_ports "[]"]
       b1 f b2 s u m b3
  show ?thesis
    by (simp del: before_try.simps execute.simps add: prod_eq_iff)
qed

end
